theory Spec2Isabelle
  imports Complex_Main
begin

section \<open>Shared vocabulary of the two mock servers\<close>

text \<open>
  The repository holds two load-test targets, \<^verbatim>\<open>mock_server.py\<close> and
  \<^verbatim>\<open>enhanced_mock_server.py\<close>. Both are \<^verbatim>\<open>http.server.HTTPServer\<close> instances:
  the server handles one request to completion before it accepts the next, so a run of the
  server is a list of handler invocations applied to the module's global variables.
  The globals become a record, a handler becomes a function from the request and the
  record to the handler's result and the updated record, and an exception raised by an
  I/O call becomes a value.
\<close>

subsection \<open>JSON values, responses, errors\<close>

text \<open>
  A response dictionary is an association list (Python dictionaries keep insertion order).
  A float is represented by the real number it denotes.
\<close>

datatype json = JInt int | JFloat real | JStr string | JObj "(string \<times> json) list"

fun field :: "string \<Rightarrow> json \<Rightarrow> json option" where
  "field k (JObj kvs) = map_of kvs k"
| "field k _ = None"


text \<open>The calls of a handler that can raise: the progress line and the socket writes.\<close>

datatype io_op = Stdout_print | Send_response | Send_header | End_headers | Wfile_write

datatype error = IOError io_op | ZeroDivisionError | ValueError

record http_response =
  status_code :: int
  content_type :: "string option"
  body :: "json option"

text \<open>
  \<^verbatim>\<open>send_response; send_header; end_headers; wfile.write\<close> in this order; the first call
  that raises ends the sequence.
\<close>

fun first_failure :: "(io_op \<Rightarrow> bool) \<Rightarrow> io_op list \<Rightarrow> io_op option" where
  "first_failure raises [] = None"
| "first_failure raises (c # cs) = (if raises c then Some c else first_failure raises cs)"

definition send_json :: "(io_op \<Rightarrow> bool) \<Rightarrow> int \<Rightarrow> json \<Rightarrow> error + http_response" where
  "send_json raises code response =
     (case first_failure raises [Send_response, Send_header, End_headers, Wfile_write] of
        Some c \<Rightarrow> Inl (IOError c)
      | None \<Rightarrow> Inr \<lparr>status_code = code, content_type = Some ''application/json'',
                     body = Some response\<rparr>)"

definition send_empty :: "(io_op \<Rightarrow> bool) \<Rightarrow> int \<Rightarrow> error + http_response" where
  "send_empty raises code =
     (case first_failure raises [Send_response, End_headers] of
        Some c \<Rightarrow> Inl (IOError c)
      | None \<Rightarrow> Inr \<lparr>status_code = code, content_type = None, body = None\<rparr>)"

subsection \<open>Order identifiers: \<^verbatim>\<open>f"ORDER-{order_count:05d}"\<close>\<close>

definition digit_char :: "nat \<Rightarrow> char" where
  "digit_char d = ''0123456789'' ! d"

fun digits :: "nat \<Rightarrow> string" where
  "digits n = (if n < 10 then [digit_char n] else digits (n div 10) @ [digit_char (n mod 10)])"

declare digits.simps [simp del]

definition zfill :: "nat \<Rightarrow> string \<Rightarrow> string" where
  "zfill w s = replicate (w - length s) (CHR ''0'') @ s"

text \<open>
  Format specification \<^verbatim>\<open>05d\<close>: decimal, zero-padded to a minimum width of five, the
  sign counted in the width and written before the zeros.
\<close>

definition format_05d :: "int \<Rightarrow> string" where
  "format_05d n =
     (if n < 0 then CHR ''-'' # zfill 4 (digits (nat (- n))) else zfill 5 (digits (nat n)))"

definition order_id_of :: "int \<Rightarrow> string" where
  "order_id_of n = ''ORDER-'' @ format_05d n"



subsection \<open>Requests\<close>

text \<open>
  What a POST handler reads from outside the module: the request path, the clock
  (\<^verbatim>\<open>datetime.now()\<close> inside the critical section, the elapsed time printed in the
  progress line, and the measured \<^verbatim>\<open>(time.time() - request_start) * 1000\<close>), and which
  I/O calls raise during this request.
\<close>

record post_request =
  path :: string
  now :: nat
  elapsed :: real
  response_time :: real
  raises :: "io_op \<Rightarrow> bool"

text \<open>The server loop: requests are handled one after the other; an exception of a
  handler is reported by the framework and the loop goes on.\<close>

fun serve :: "('rq \<Rightarrow> 's \<Rightarrow> 'o \<times> 's) \<Rightarrow> 'rq list \<Rightarrow> 's \<Rightarrow> 'o list \<times> 's" where
  "serve h [] s = ([], s)"
| "serve h (rq # rqs) s =
     (case h rq s of (out, s1) \<Rightarrow>
        (case serve h rqs s1 of (outs, s2) \<Rightarrow> (out # outs, s2)))"

section \<open>\<^verbatim>\<open>enhanced_mock_server.py\<close>\<close>

subsection \<open>Global state\<close>

text \<open>One printed progress line: the counters it shows (its rendering is not modelled).\<close>

record progress =
  p_time :: nat
  p_orders :: int
  p_success :: int
  p_failed :: int
  p_stock :: int
  p_elapsed :: real
  p_concurrent :: int

record enhanced_state =
  available_stock :: int
  order_count :: int
  successful_orders :: int
  failed_orders :: int
  concurrent_requests :: int
  max_concurrent :: int
  response_times :: "real list"
  order_timestamps :: "nat list"
  console :: "progress list"

definition INITIAL_STOCK :: int where
  "INITIAL_STOCK = 500"

text \<open>The module's initial bindings, for an initial stock \<open>S\<close> (500 in the source).\<close>

definition initial_state :: "int \<Rightarrow> enhanced_state" where
  "initial_state S =
     \<lparr>available_stock = S, order_count = 0, successful_orders = 0, failed_orders = 0,
      concurrent_requests = 0, max_concurrent = 0, response_times = [],
      order_timestamps = [], console = []\<rparr>"

subsection \<open>\<^verbatim>\<open>MockHandler.do_POST\<close>\<close>

text \<open>Lines 35-38: the first critical section.\<close>

definition tracker_enter :: "enhanced_state \<Rightarrow> enhanced_state" where
  "tracker_enter s =
     (let s1 = s\<lparr>concurrent_requests := concurrent_requests s + 1\<rparr>
      in if concurrent_requests s1 > max_concurrent s1
         then s1\<lparr>max_concurrent := concurrent_requests s1\<rparr> else s1)"

text \<open>Lines 92-93: the \<^verbatim>\<open>finally\<close> block.\<close>

definition tracker_exit :: "enhanced_state \<Rightarrow> enhanced_state" where
  "tracker_exit s = s\<lparr>concurrent_requests := concurrent_requests s - 1\<rparr>"

text \<open>
  Lines 45-79: the critical section of an order. It returns the locals \<^verbatim>\<open>order_id\<close>,
  \<^verbatim>\<open>status_code\<close> and \<^verbatim>\<open>response\<close> as they stand when the section is left, and the
  exception of the progress line if that is what leaves it.
\<close>

definition order_section ::
  "post_request \<Rightarrow> enhanced_state \<Rightarrow>
     ((string \<times> int \<times> json) \<times> error option) \<times> enhanced_state" where
  "order_section rq s =
     (let s1 = s\<lparr>order_count := order_count s + 1\<rparr>;
          order_id = order_id_of (order_count s1);
          timestamp = now rq
      in if available_stock s1 > 0 then
           let s2 = s1\<lparr>available_stock := available_stock s1 - 1,
                       successful_orders := successful_orders s1 + 1,
                       order_timestamps := order_timestamps s1 @ [timestamp]\<rparr>;
               response = JObj [(''orderId'', JStr order_id),
                                (''status'', JStr ''CONFIRMED''),
                                (''message'', JStr ''Order created successfully''),
                                (''remainingStock'', JInt (available_stock s2))];
               status_code = 201
           in if successful_orders s2 mod 100 = 0 then
                if raises rq Stdout_print
                then (((order_id, status_code, response), Some (IOError Stdout_print)), s2)
                else (((order_id, status_code, response), None),
                      s2\<lparr>console := console s2 @
                          [\<lparr>p_time = timestamp, p_orders = order_count s2,
                            p_success = successful_orders s2, p_failed = failed_orders s2,
                            p_stock = available_stock s2, p_elapsed = elapsed rq,
                            p_concurrent = concurrent_requests s2\<rparr>]\<rparr>)
              else (((order_id, status_code, response), None), s2)
         else
           let s2 = s1\<lparr>failed_orders := failed_orders s1 + 1\<rparr>;
               response = JObj [(''error'', JStr ''INSUFFICIENT_STOCK''),
                                (''message'', JStr ''Insufficient stock for the requested items''),
                                (''orderId'', JStr order_id)];
               status_code = 409
           in (((order_id, status_code, response), None), s2))"

text \<open>
  Lines 41-90: the body of the \<^verbatim>\<open>try\<close> block. The 1 ms \<^verbatim>\<open>time.sleep\<close> touches
  no global. When the order section is left by an exception, the sample is not appended
  and nothing is sent.
\<close>

definition post_body ::
  "post_request \<Rightarrow> enhanced_state \<Rightarrow> ((string \<times> int) option \<times> (error + http_response)) \<times> enhanced_state" where
  "post_body rq s =
     (if path rq = ''/api/v1/orders'' then
        (case order_section rq s of
           (((order_id, code, response), Some e), s1) \<Rightarrow> ((Some (order_id, code), Inl e), s1)
         | (((order_id, code, response), None), s1) \<Rightarrow>
             let s2 = s1\<lparr>response_times := response_times s1 @ [response_time rq]\<rparr>
             in ((Some (order_id, code), send_json (raises rq) code response), s2))
      else ((None, send_empty (raises rq) 404), s))"

text \<open>
  The handler: enter, the \<^verbatim>\<open>try\<close> body, and the \<^verbatim>\<open>finally\<close> block whether or not the
  body raised. The result pairs the order identifier and the status code the handler
  assigned to the request (none on an unrecognized path) with the response sent or the
  exception that left the handler.
\<close>

definition enhanced_do_POST ::
  "post_request \<Rightarrow> enhanced_state \<Rightarrow> ((string \<times> int) option \<times> (error + http_response)) \<times> enhanced_state" where
  "enhanced_do_POST rq s =
     (let s1 = tracker_enter s
      in case post_body rq s1 of (out, s2) \<Rightarrow> (out, tracker_exit s2))"

definition enhanced_run ::
  "post_request list \<Rightarrow> enhanced_state \<Rightarrow> ((string \<times> int) option \<times> (error + http_response)) list \<times> enhanced_state" where
  "enhanced_run = serve enhanced_do_POST"

text \<open>
  The handler's updates of the globals, one per atomic section: the two sections under
  \<^verbatim>\<open>stock_lock\<close> around the body, the order section, and the append to
  \<^verbatim>\<open>response_times\<close>. A trace is any sequence of them, so the traces cover every
  interleaving of handlers that a threaded server could produce, and the single-threaded
  runs in particular.
\<close>

datatype step = Enter | Order post_request | Sample real | Exit

fun exec_step :: "step \<Rightarrow> enhanced_state \<Rightarrow> enhanced_state" where
  "exec_step Enter s = tracker_enter s"
| "exec_step (Order rq) s = snd (order_section rq s)"
| "exec_step (Sample x) s = s\<lparr>response_times := response_times s @ [x]\<rparr>"
| "exec_step Exit s = tracker_exit s"

definition exec :: "step list \<Rightarrow> enhanced_state \<Rightarrow> enhanced_state" where
  "exec tr s = fold exec_step tr s"

text \<open>The sections one handler invocation goes through, from state \<open>s\<close>.\<close>

definition post_steps :: "post_request \<Rightarrow> enhanced_state \<Rightarrow> step list" where
  "post_steps rq s =
     Enter #
     (if path rq = ''/api/v1/orders'' then
        Order rq #
        (case snd (fst (order_section rq (tracker_enter s))) of
           Some e \<Rightarrow> []
         | None \<Rightarrow> [Sample (response_time rq)])
      else [])
     @ [Exit]"

subsection \<open>\<^verbatim>\<open>MockHandler.do_GET\<close>\<close>

text \<open>
  Float arithmetic is a parameter of the model: the operations the handler applies, each
  returning the float (a real number) that Python computes.
\<close>

record float_ops =
  int_div_int :: "int \<Rightarrow> int \<Rightarrow> real"
  int_div_float :: "int \<Rightarrow> real \<Rightarrow> real"
  float_div_int :: "real \<Rightarrow> int \<Rightarrow> real"
  float_mul_int :: "real \<Rightarrow> int \<Rightarrow> real"
  float_sum :: "real list \<Rightarrow> real"

text \<open>Python's \<^verbatim>\<open>/\<close> raises on a zero divisor; \<^verbatim>\<open>min\<close> and \<^verbatim>\<open>max\<close> raise on an
  empty sequence.\<close>

definition truediv_ii :: "float_ops \<Rightarrow> int \<Rightarrow> int \<Rightarrow> error + real" where
  "truediv_ii fl a b = (if b = 0 then Inl ZeroDivisionError else Inr (int_div_int fl a b))"

definition truediv_if :: "float_ops \<Rightarrow> int \<Rightarrow> real \<Rightarrow> error + real" where
  "truediv_if fl a b = (if b = 0 then Inl ZeroDivisionError else Inr (int_div_float fl a b))"

definition truediv_fi :: "float_ops \<Rightarrow> real \<Rightarrow> int \<Rightarrow> error + real" where
  "truediv_fi fl a b = (if b = 0 then Inl ZeroDivisionError else Inr (float_div_int fl a b))"

fun py_min :: "real list \<Rightarrow> error + real" where
  "py_min [] = Inl ValueError"
| "py_min (x # xs) = Inr (fold min xs x)"

fun py_max :: "real list \<Rightarrow> error + real" where
  "py_max [] = Inl ValueError"
| "py_max (x # xs) = Inr (fold max xs x)"

definition bind :: "error + 'a \<Rightarrow> ('a \<Rightarrow> error + 'b) \<Rightarrow> error + 'b" where
  "bind m f = (case m of Inl e \<Rightarrow> Inl e | Inr x \<Rightarrow> f x)"

text \<open>
  Lines 98-119: the \<^verbatim>\<open>metrics\<close> dictionary, its entries evaluated in source order.
  A conditional expression evaluates only the branch it selects.
\<close>

definition metrics_snapshot :: "float_ops \<Rightarrow> int \<Rightarrow> real \<Rightarrow> enhanced_state \<Rightarrow> error + json" where
  "metrics_snapshot fl initial_stock total_time s =
     bind (if response_times s \<noteq> []
           then bind (truediv_fi fl (float_sum fl (response_times s))
                        (int (length (response_times s)))) (\<lambda>x. Inr (JFloat x))
           else Inr (JInt 0)) (\<lambda>avg_response_time.
     bind (if order_count s > 0
           then bind (truediv_ii fl (successful_orders s) (order_count s))
                  (\<lambda>x. Inr (JFloat (float_mul_int fl x 100)))
           else Inr (JInt 0)) (\<lambda>successRate.
     bind (if total_time > 0
           then bind (truediv_if fl (order_count s) total_time) (\<lambda>x. Inr (JFloat x))
           else Inr (JInt 0)) (\<lambda>avgTPS.
     bind (if response_times s \<noteq> []
           then bind (py_min (response_times s)) (\<lambda>x. Inr (JFloat x))
           else Inr (JInt 0)) (\<lambda>min_rt.
     bind (if response_times s \<noteq> []
           then bind (py_max (response_times s)) (\<lambda>x. Inr (JFloat x))
           else Inr (JInt 0)) (\<lambda>max_rt.
     Inr (JObj
       [(''summary'', JObj
           [(''initialStock'', JInt initial_stock),
            (''availableStock'', JInt (available_stock s)),
            (''totalOrders'', JInt (order_count s)),
            (''successfulOrders'', JInt (successful_orders s)),
            (''failedOrders'', JInt (failed_orders s)),
            (''successRate'', successRate),
            (''totalTime'', JFloat total_time),
            (''avgTPS'', avgTPS),
            (''maxConcurrentRequests'', JInt (max_concurrent s))]),
        (''responseTime'', JObj
           [(''avg'', avg_response_time),
            (''min'', min_rt),
            (''max'', max_rt),
            (''count'', JInt (int (length (response_times s))))])]))))))"

text \<open>Lines 127-135: the inventory dictionary.\<close>

definition inventory_snapshot :: "int \<Rightarrow> enhanced_state \<Rightarrow> json" where
  "inventory_snapshot initial_stock s =
     JObj [(''productId'', JStr ''550e8400-e29b-41d4-a716-446655440001''),
           (''initialStock'', JInt initial_stock),
           (''availableStock'', JInt (available_stock s)),
           (''reservedStock'', JInt (initial_stock - available_stock s)),
           (''totalOrders'', JInt (order_count s)),
           (''successfulOrders'', JInt (successful_orders s)),
           (''failedOrders'', JInt (failed_orders s))]"

record get_request =
  get_path :: string
  total_time :: real
  get_raises :: "io_op \<Rightarrow> bool"

definition startswith :: "string \<Rightarrow> string \<Rightarrow> bool" where
  "startswith s p = (take (length p) s = p)"

text \<open>The handler reads the globals and changes none of them.\<close>

definition enhanced_do_GET ::
  "float_ops \<Rightarrow> int \<Rightarrow> get_request \<Rightarrow> enhanced_state \<Rightarrow> error + http_response" where
  "enhanced_do_GET fl initial_stock rq s =
     (if get_path rq = ''/metrics'' then
        bind (metrics_snapshot fl initial_stock (total_time rq) s)
          (\<lambda>metrics. send_json (get_raises rq) 200 metrics)
      else if startswith (get_path rq) ''/api/v1/inventory/products/'' then
        send_json (get_raises rq) 200 (inventory_snapshot initial_stock s)
      else send_empty (get_raises rq) 404)"

section \<open>\<^verbatim>\<open>mock_server.py\<close>\<close>

record mock_state =
  m_available_stock :: int
  m_order_count :: int
  m_successful_orders :: int

text \<open>The module's initial bindings, for an initial stock \<open>S\<close> (100 in the source).\<close>

definition mock_initial_state :: "int \<Rightarrow> mock_state" where
  "mock_initial_state S =
     \<lparr>m_available_stock = S, m_order_count = 0, m_successful_orders = 0\<rparr>"

text \<open>
  \<^verbatim>\<open>MockHandler.do_POST\<close>: the whole order path runs under \<^verbatim>\<open>stock_lock\<close>, the
  response is sent inside it. The request's clock fields are not read. The result pairs
  the local \<^verbatim>\<open>order_id\<close> and the status code the branch passes to \<^verbatim>\<open>send_response\<close>
  with the response sent or the exception that left the handler.
\<close>

definition mock_do_POST ::
  "post_request \<Rightarrow> mock_state \<Rightarrow> ((string \<times> int) option \<times> (error + http_response)) \<times> mock_state" where
  "mock_do_POST rq s =
     (if path rq = ''/api/v1/orders'' then
        let s1 = s\<lparr>m_order_count := m_order_count s + 1\<rparr>;
            order_id = order_id_of (m_order_count s1)
        in if m_available_stock s1 > 0 then
             let s2 = s1\<lparr>m_available_stock := m_available_stock s1 - 1,
                         m_successful_orders := m_successful_orders s1 + 1\<rparr>;
                 response = JObj [(''orderId'', JStr order_id),
                                  (''status'', JStr ''CONFIRMED''),
                                  (''message'', JStr ''Order created successfully'')]
             in ((Some (order_id, 201), send_json (raises rq) 201 response), s2)
           else
             let response = JObj [(''error'', JStr ''INSUFFICIENT_STOCK''),
                                  (''message'', JStr ''Insufficient stock for the requested items'')]
             in ((Some (order_id, 409), send_json (raises rq) 409 response), s1)
      else ((None, send_empty (raises rq) 404), s))"

definition mock_run ::
  "post_request list \<Rightarrow> mock_state \<Rightarrow> ((string \<times> int) option \<times> (error + http_response)) list \<times> mock_state" where
  "mock_run = serve mock_do_POST"

text \<open>The failed count the module prints at shutdown: \<^verbatim>\<open>order_count - successful_orders\<close>.\<close>

definition mock_failed :: "mock_state \<Rightarrow> int" where
  "mock_failed s = m_order_count s - m_successful_orders s"

section \<open>Observations on runs\<close>

fun has_status :: "int \<Rightarrow> (string \<times> int) option \<times> (error + http_response) \<Rightarrow> bool" where
  "has_status c (oid, Inr r) = (status_code r = c)"
| "has_status c (oid, Inl e) = False"

text \<open>The identifier and the status code the handler assigned to the request.\<close>

definition assigned_id :: "(string \<times> int) option \<times> (error + http_response) \<Rightarrow> string option" where
  "assigned_id out = map_option fst (fst out)"

definition assigned_status :: "(string \<times> int) option \<times> (error + http_response) \<Rightarrow> int option" where
  "assigned_status out = map_option snd (fst out)"

definition count_assigned :: "int \<Rightarrow> ((string \<times> int) option \<times> (error + http_response)) list \<Rightarrow> int" where
  "count_assigned c outs = int (length (filter (\<lambda>out. assigned_status out = Some c) outs))"

definition count_status :: "int \<Rightarrow> ((string \<times> int) option \<times> (error + http_response)) list \<Rightarrow> int" where
  "count_status c outs = int (length (filter (has_status c) outs))"

text \<open>What becomes of the response: the status code sent, or the exception that kept it
  from being sent.\<close>

fun reply_code :: "(string \<times> int) option \<times> (error + http_response) \<Rightarrow> error + int" where
  "reply_code (oid, Inr r) = Inr (status_code r)"
| "reply_code (oid, Inl e) = Inl e"

definition is_order :: "post_request \<Rightarrow> bool" where
  "is_order rq = (path rq = ''/api/v1/orders'')"

definition no_fault :: "post_request \<Rightarrow> bool" where
  "no_fault rq = (\<not> raises rq Stdout_print \<and> \<not> raises rq Send_response \<and>
     \<not> raises rq Send_header \<and> \<not> raises rq End_headers \<and> \<not> raises rq Wfile_write)"

subsection \<open>Sample requests\<close>

text \<open>Fault patterns and requests used to evaluate the handlers at concrete inputs.\<close>

definition never :: "io_op \<Rightarrow> bool" where
  "never c = False"

definition always :: "io_op \<Rightarrow> bool" where
  "always c = True"

definition order_request :: "(io_op \<Rightarrow> bool) \<Rightarrow> post_request" where
  "order_request f =
     \<lparr>path = ''/api/v1/orders'', now = 0, elapsed = 1, response_time = 2, raises = f\<rparr>"

definition other_request :: "(io_op \<Rightarrow> bool) \<Rightarrow> post_request" where
  "other_request f =
     \<lparr>path = ''/api/v1/carts'', now = 0, elapsed = 1, response_time = 2, raises = f\<rparr>"




text \<open>The handler was left by the exception of the progress line, inside the order's
  critical section.\<close>

fun aborted :: "(string \<times> int) option \<times> (error + http_response) \<Rightarrow> bool" where
  "aborted (oid, r) = (r = Inl (IOError Stdout_print))"

text \<open>The globals of \<^verbatim>\<open>mock_server.py\<close> against those of
  \<^verbatim>\<open>enhanced_mock_server.py\<close>, the failed count of the former derived.\<close>

definition agree :: "mock_state \<Rightarrow> enhanced_state \<Rightarrow> bool" where
  "agree m e =
     (m_available_stock m = available_stock e \<and> m_order_count m = order_count e \<and>
      m_successful_orders m = successful_orders e \<and> mock_failed m = failed_orders e)"

subsection \<open>Reading a snapshot\<close>

fun path_field :: "string list \<Rightarrow> json \<Rightarrow> json option" where
  "path_field [] j = Some j"
| "path_field (k # ks) j = (case field k j of None \<Rightarrow> None | Some v \<Rightarrow> path_field ks v)"

fun get_field :: "string list \<Rightarrow> error + http_response \<Rightarrow> json option" where
  "get_field ks (Inr r) = (case body r of None \<Rightarrow> None | Some j \<Rightarrow> path_field ks j)"
| "get_field ks (Inl e) = None"

definition no_get_fault :: "get_request \<Rightarrow> bool" where
  "no_get_fault rq = (\<not> get_raises rq Send_response \<and> \<not> get_raises rq Send_header \<and>
     \<not> get_raises rq End_headers \<and> \<not> get_raises rq Wfile_write)"

definition metrics_request :: "(io_op \<Rightarrow> bool) \<Rightarrow> get_request" where
  "metrics_request f = \<lparr>get_path = ''/metrics'', total_time = 2, get_raises = f\<rparr>"

text \<open>Float operations without rounding, for inputs whose results are representable
  (such as \<^verbatim>\<open>3 / 4 * 100\<close>).\<close>

definition exact_ops :: float_ops where
  "exact_ops =
     \<lparr>int_div_int = (\<lambda>a b. real_of_int a / real_of_int b),
      int_div_float = (\<lambda>a b. real_of_int a / b),
      float_div_int = (\<lambda>a b. a / real_of_int b),
      float_mul_int = (\<lambda>a b. a * real_of_int b),
      float_sum = sum_list\<rparr>"

text \<open>The number of order sections in a trace.\<close>

fun orders_in :: "step list \<Rightarrow> nat" where
  "orders_in [] = 0"
| "orders_in (Order rq # tr) = Suc (orders_in tr)"
| "orders_in (x # tr) = orders_in tr"

section \<open>The handlers' effect on the globals\<close>

lemma order_section_fields:
  "available_stock (snd (order_section rq s)) =
     (if available_stock s > 0 then available_stock s - 1 else available_stock s)"
  "order_count (snd (order_section rq s)) = order_count s + 1"
  "successful_orders (snd (order_section rq s)) =
     (if available_stock s > 0 then successful_orders s + 1 else successful_orders s)"
  "failed_orders (snd (order_section rq s)) =
     (if available_stock s > 0 then failed_orders s else failed_orders s + 1)"
  "concurrent_requests (snd (order_section rq s)) = concurrent_requests s"
  "max_concurrent (snd (order_section rq s)) = max_concurrent s"
  "response_times (snd (order_section rq s)) = response_times s"
  "fst (fst (fst (order_section rq s))) = order_id_of (order_count s + 1)"
  "fst (snd (fst (fst (order_section rq s)))) = (if available_stock s > 0 then 201 else 409)"
  by (simp_all add: order_section_def Let_def)

lemma tracker_enter_fields:
  "available_stock (tracker_enter s) = available_stock s"
  "order_count (tracker_enter s) = order_count s"
  "successful_orders (tracker_enter s) = successful_orders s"
  "failed_orders (tracker_enter s) = failed_orders s"
  "concurrent_requests (tracker_enter s) = concurrent_requests s + 1"
  "max_concurrent (tracker_enter s) = max (max_concurrent s) (concurrent_requests s + 1)"
  "response_times (tracker_enter s) = response_times s"
  by (simp_all add: tracker_enter_def Let_def)

lemma tracker_exit_fields:
  "available_stock (tracker_exit s) = available_stock s"
  "order_count (tracker_exit s) = order_count s"
  "successful_orders (tracker_exit s) = successful_orders s"
  "failed_orders (tracker_exit s) = failed_orders s"
  "concurrent_requests (tracker_exit s) = concurrent_requests s - 1"
  "max_concurrent (tracker_exit s) = max_concurrent s"
  "response_times (tracker_exit s) = response_times s"
  by (simp_all add: tracker_exit_def)

text \<open>Whether the order section is left by the exception of the progress line.\<close>

lemma section_result:
  "fst (order_section rq s) =
     (if available_stock s > 0 then
        ((order_id_of (order_count s + 1), 201,
          JObj [(''orderId'', JStr (order_id_of (order_count s + 1))),
                (''status'', JStr ''CONFIRMED''),
                (''message'', JStr ''Order created successfully''),
                (''remainingStock'', JInt (available_stock s - 1))]),
         if (successful_orders s + 1) mod 100 = 0 \<and> raises rq Stdout_print
         then Some (IOError Stdout_print) else None)
      else
        ((order_id_of (order_count s + 1), 409,
          JObj [(''error'', JStr ''INSUFFICIENT_STOCK''),
                (''message'', JStr ''Insufficient stock for the requested items''),
                (''orderId'', JStr (order_id_of (order_count s + 1)))]),
         None))"
  by (simp add: order_section_def Let_def)

lemma post_body_snd:
  "snd (post_body rq s) =
     (if is_order rq then
        (case snd (fst (order_section rq s)) of
           Some e \<Rightarrow> snd (order_section rq s)
         | None \<Rightarrow> (snd (order_section rq s))
             \<lparr>response_times := response_times (snd (order_section rq s)) @ [response_time rq]\<rparr>)
      else s)"
proof (cases "order_section rq s")
  case (Pair a s1)
  then show ?thesis
    by (cases a; cases "fst a"; cases "snd (fst a)"; cases "snd a")
       (auto simp: post_body_def is_order_def Let_def)
qed

lemma post_body_fst:
  "fst (post_body rq s) =
     (if is_order rq then
        (Some (fst (fst (fst (order_section rq s))), fst (snd (fst (fst (order_section rq s))))),
         case snd (fst (order_section rq s)) of
           Some e \<Rightarrow> Inl e
         | None \<Rightarrow> send_json (raises rq) (fst (snd (fst (fst (order_section rq s)))))
                     (snd (snd (fst (fst (order_section rq s))))))
      else (None, send_empty (raises rq) 404))"
proof (cases "order_section rq s")
  case (Pair a s1)
  then show ?thesis
    by (cases a; cases "fst a"; cases "snd (fst a)"; cases "snd a")
       (auto simp: post_body_def is_order_def Let_def)
qed

lemma do_POST_snd: "snd (enhanced_do_POST rq s) = tracker_exit (snd (post_body rq (tracker_enter s)))"
  by (simp add: enhanced_do_POST_def Let_def split: prod.splits)

lemma do_POST_fst: "fst (enhanced_do_POST rq s) = fst (post_body rq (tracker_enter s))"
  by (simp add: enhanced_do_POST_def Let_def split: prod.splits)

lemma do_POST_fields:
  "available_stock (snd (enhanced_do_POST rq s)) =
     (if is_order rq \<and> available_stock s > 0 then available_stock s - 1 else available_stock s)"
  "order_count (snd (enhanced_do_POST rq s)) =
     (if is_order rq then order_count s + 1 else order_count s)"
  "successful_orders (snd (enhanced_do_POST rq s)) =
     (if is_order rq \<and> available_stock s > 0 then successful_orders s + 1 else successful_orders s)"
  "failed_orders (snd (enhanced_do_POST rq s)) =
     (if is_order rq \<and> \<not> available_stock s > 0 then failed_orders s + 1 else failed_orders s)"
  "concurrent_requests (snd (enhanced_do_POST rq s)) = concurrent_requests s"
  "max_concurrent (snd (enhanced_do_POST rq s)) =
     max (max_concurrent s) (concurrent_requests s + 1)"
  by (simp_all add: do_POST_snd post_body_snd tracker_exit_fields tracker_enter_fields
      order_section_fields split: option.splits)

lemma serve_snd_Cons: "snd (serve h (rq # rqs) s) = snd (serve h rqs (snd (h rq s)))"
  by (simp split: prod.splits)

lemma serve_fst_Cons:
  "fst (serve h (rq # rqs) s) = fst (h rq s) # fst (serve h rqs (snd (h rq s)))"
  by (simp split: prod.splits)


lemma serve_append_snd:
  "snd (serve h (xs @ ys) s) = snd (serve h ys (snd (serve h xs s)))"
  by (induction xs arbitrary: s) (simp_all add: serve_snd_Cons del: serve.simps(2))

lemma exec_append: "exec (xs @ ys) s = exec ys (exec xs s)"
  by (simp add: exec_def)

lemma exec_step_tracker:
  "max_concurrent s \<le> max_concurrent (exec_step x s)"
  "concurrent_requests s \<le> max_concurrent s \<Longrightarrow>
     concurrent_requests (exec_step x s) \<le> max_concurrent (exec_step x s)"
  by (cases x; simp add: tracker_enter_fields tracker_exit_fields order_section_fields)+

lemma exec_tracker:
  "max_concurrent s \<le> max_concurrent (exec tr s)"
  "concurrent_requests s \<le> max_concurrent s \<Longrightarrow>
     concurrent_requests (exec tr s) \<le> max_concurrent (exec tr s)"
proof (induction tr arbitrary: s)
  case Nil
  { case 1 show ?case by (simp add: exec_def) }
  { case 2 then show ?case by (simp add: exec_def) }
next
  case (Cons x tr)
  { case 1
    have "max_concurrent s \<le> max_concurrent (exec_step x s)" by (rule exec_step_tracker)
    also have "\<dots> \<le> max_concurrent (exec tr (exec_step x s))" by (rule Cons.IH(1))
    finally show ?case by (simp add: exec_def) }
  { case 2
    then have "concurrent_requests (exec_step x s) \<le> max_concurrent (exec_step x s)"
      by (rule exec_step_tracker)
    then have "concurrent_requests (exec tr (exec_step x s)) \<le> max_concurrent (exec tr (exec_step x s))"
      by (rule Cons.IH(2))
    then show ?case by (simp add: exec_def) }
qed

section \<open>The concurrency tracker\<close>

text \<open>
  Claim C5. \<^verbatim>\<open>max_concurrent\<close> never decreases, and at every point of a run it is at
  least every value \<^verbatim>\<open>concurrent_requests\<close> has held so far: for every trace of atomic
  sections from the initial state and all points \<open>i \<le> j\<close> of it, the maximum at \<open>j\<close> is
  at least the maximum at \<open>i\<close> and at least the number in flight at \<open>i\<close>.
\<close>

theorem high_water_mark:
  assumes "i \<le> j"
  shows "max_concurrent (exec (take i tr) (initial_state S))
           \<le> max_concurrent (exec (take j tr) (initial_state S)) \<and>
         concurrent_requests (exec (take i tr) (initial_state S))
           \<le> max_concurrent (exec (take j tr) (initial_state S))"
proof -
  let ?si = "exec (take i tr) (initial_state S)"
  have split: "take j tr = take i tr @ drop i (take j tr)"
    using assms by (metis append_take_drop_id min.absorb1 take_take)
  have sj: "exec (take j tr) (initial_state S) = exec (drop i (take j tr)) ?si"
    by (subst split) (simp only: exec_append)
  have "concurrent_requests (initial_state S) \<le> max_concurrent (initial_state S)"
    by (simp add: initial_state_def)
  then have inv: "concurrent_requests ?si \<le> max_concurrent ?si"
    by (rule exec_tracker(2))
  have mono: "max_concurrent ?si \<le> max_concurrent (exec (drop i (take j tr)) ?si)"
    by (rule exec_tracker(1))
  from inv mono show ?thesis unfolding sj by simp
qed

theorem high_water_mark_witness:
  "(2::nat) \<le> 4 \<and>
   concurrent_requests (exec (take 2 [Enter, Enter, Exit, Exit]) (initial_state 5)) = 2 \<and>
   max_concurrent (exec (take 4 [Enter, Enter, Exit, Exit]) (initial_state 5)) = 2 \<and>
   concurrent_requests (exec (take 2 [Enter, Enter, Exit, Exit]) (initial_state 5))
     \<le> max_concurrent (exec (take 4 [Enter, Enter, Exit, Exit]) (initial_state 5))"
  using high_water_mark [of 2 4 "[Enter, Enter, Exit, Exit]" 5]
  by (simp add: exec_def initial_state_def tracker_enter_def tracker_exit_def Let_def)

lemma run_snd_Cons:
  "snd (enhanced_run (rq # rqs) s) = snd (enhanced_run rqs (snd (enhanced_do_POST rq s)))"
  by (simp add: enhanced_run_def serve_snd_Cons del: serve.simps)

lemma run_fst_Cons:
  "fst (enhanced_run (rq # rqs) s) =
     fst (enhanced_do_POST rq s) # fst (enhanced_run rqs (snd (enhanced_do_POST rq s)))"
  by (simp add: enhanced_run_def serve_fst_Cons del: serve.simps)

lemma run_Nil: "enhanced_run [] s = ([], s)"
  by (simp add: enhanced_run_def)

lemma run_in_flight: "concurrent_requests (snd (enhanced_run rqs s)) = concurrent_requests s"
  by (induction rqs arbitrary: s) (simp_all add: run_Nil run_snd_Cons do_POST_fields)

lemma do_POST_exec: "snd (enhanced_do_POST rq s) = exec (post_steps rq s) s"
  by (cases "snd (fst (order_section rq (tracker_enter s)))")
     (simp_all add: do_POST_snd post_body_snd post_steps_def exec_def is_order_def)

section \<open>Guaranteed release of the in-flight counter\<close>

text \<open>
  Claim C4. Every POST that enters the handler leaves \<^verbatim>\<open>concurrent_requests\<close> as it
  found it, on every exit path: for every request (any path, any pattern of raising I/O
  calls) and every state, the handler goes through exactly one entering and one exiting
  section, and the counter after the handler, and after any run of handlers, is the counter
  before.
\<close>

theorem in_flight_released:
  "concurrent_requests (snd (enhanced_do_POST rq s)) = concurrent_requests s \<and>
   snd (enhanced_do_POST rq s) = exec (post_steps rq s) s \<and>
   count_list (post_steps rq s) Enter = 1 \<and>
   count_list (post_steps rq s) Exit = 1 \<and>
   concurrent_requests (snd (enhanced_run rqs s)) = concurrent_requests s"
proof -
  have "count_list (post_steps rq s) Enter = 1" "count_list (post_steps rq s) Exit = 1"
    by (simp_all add: post_steps_def split: option.splits)
  then show ?thesis
    by (simp add: do_POST_fields do_POST_exec [symmetric] run_in_flight)
qed

theorem in_flight_released_witness:
  "snd (fst (enhanced_do_POST (order_request always) (initial_state 5)))
     = Inl (IOError Send_response) \<and>
   concurrent_requests (snd (enhanced_do_POST (order_request always) (initial_state 5))) = 0 \<and>
   concurrent_requests (snd (enhanced_run
     [order_request always, other_request always, order_request never] (initial_state 5))) = 0"
proof -
  have raised: "snd (fst (enhanced_do_POST (order_request always) (initial_state 5)))
      = Inl (IOError Send_response)"
    by (simp add: do_POST_fst post_body_fst is_order_def order_request_def always_def
        section_result tracker_enter_fields initial_state_def send_json_def)
  have start: "concurrent_requests (initial_state 5) = 0"
    by (simp add: initial_state_def)
  note released = in_flight_released [of "order_request always" "initial_state 5"
      "[order_request always, other_request always, order_request never]"]
  from released have one: "concurrent_requests
      (snd (enhanced_do_POST (order_request always) (initial_state 5)))
      = concurrent_requests (initial_state 5)"
    by (rule conjunct1)
  from released have run: "concurrent_requests (snd (enhanced_run
      [order_request always, other_request always, order_request never] (initial_state 5)))
      = concurrent_requests (initial_state 5)"
    by blast
  from raised one run start show ?thesis by simp
qed

section \<open>The ledger invariant\<close>

lemma run_ledger:
  "available_stock (snd (enhanced_run rqs s)) + successful_orders (snd (enhanced_run rqs s))
     = available_stock s + successful_orders s"
  "order_count (snd (enhanced_run rqs s)) - successful_orders (snd (enhanced_run rqs s))
     - failed_orders (snd (enhanced_run rqs s))
     = order_count s - successful_orders s - failed_orders s"
  by (induction rqs arbitrary: s) (simp_all add: run_Nil run_snd_Cons do_POST_fields)

lemma exec_step_ledger:
  "available_stock (exec_step x s) + successful_orders (exec_step x s)
     = available_stock s + successful_orders s"
  "order_count (exec_step x s) - successful_orders (exec_step x s) - failed_orders (exec_step x s)
     = order_count s - successful_orders s - failed_orders s"
  by (cases x; simp add: tracker_enter_fields tracker_exit_fields order_section_fields)+

lemma exec_ledger:
  "available_stock (exec tr s) + successful_orders (exec tr s)
     = available_stock s + successful_orders s"
  "order_count (exec tr s) - successful_orders (exec tr s) - failed_orders (exec tr s)
     = order_count s - successful_orders s - failed_orders s"
  by (induction tr arbitrary: s) (simp_all add: exec_def exec_step_ledger)

text \<open>
  Claim C2. After every order attempt the ledger satisfies
  \<^verbatim>\<open>available_stock = initial stock - successful_orders\<close> and
  \<^verbatim>\<open>order_count = successful_orders + failed_orders\<close>: it holds after every run of
  POST handlers from the initial state, whatever the requests and the I/O faults, and
  after every trace of atomic sections.
\<close>

theorem ledger_invariant:
  "available_stock (snd (enhanced_run rqs (initial_state S)))
     = S - successful_orders (snd (enhanced_run rqs (initial_state S))) \<and>
   order_count (snd (enhanced_run rqs (initial_state S)))
     = successful_orders (snd (enhanced_run rqs (initial_state S)))
       + failed_orders (snd (enhanced_run rqs (initial_state S))) \<and>
   available_stock (exec tr (initial_state S))
     = S - successful_orders (exec tr (initial_state S)) \<and>
   order_count (exec tr (initial_state S))
     = successful_orders (exec tr (initial_state S)) + failed_orders (exec tr (initial_state S))"
  using run_ledger [of rqs "initial_state S"] exec_ledger [of tr "initial_state S"]
  by (simp add: initial_state_def)

section \<open>Replies and counters of runs\<close>

lemma send_json_no_fault:
  "no_fault rq \<Longrightarrow> send_json (raises rq) c b =
     Inr \<lparr>status_code = c, content_type = Some ''application/json'', body = Some b\<rparr>"
  by (simp add: send_json_def no_fault_def)

lemma send_json_cases:
  "send_json f c b = Inr \<lparr>status_code = c, content_type = Some ''application/json'', body = Some b\<rparr>
   \<or> (\<exists>x. send_json f c b = Inl (IOError x) \<and> x \<noteq> Stdout_print)"
  by (simp add: send_json_def)

lemma send_empty_cases:
  "send_empty f c = Inr \<lparr>status_code = c, content_type = None, body = None\<rparr>
   \<or> (\<exists>x. send_empty f c = Inl (IOError x) \<and> x \<noteq> Stdout_print)"
  by (simp add: send_empty_def)

lemma do_POST_id:
  "fst (fst (enhanced_do_POST rq s)) =
     (if is_order rq
      then Some (order_id_of (order_count s + 1), if available_stock s > 0 then 201 else 409)
      else None)"
  by (simp add: do_POST_fst post_body_fst order_section_fields tracker_enter_fields)

lemma do_POST_reply:
  "snd (fst (enhanced_do_POST rq s)) =
     (if is_order rq then
        if available_stock s > 0 then
          if (successful_orders s + 1) mod 100 = 0 \<and> raises rq Stdout_print
          then Inl (IOError Stdout_print)
          else send_json (raises rq) 201
                 (JObj [(''orderId'', JStr (order_id_of (order_count s + 1))),
                        (''status'', JStr ''CONFIRMED''),
                        (''message'', JStr ''Order created successfully''),
                        (''remainingStock'', JInt (available_stock s - 1))])
        else send_json (raises rq) 409
               (JObj [(''error'', JStr ''INSUFFICIENT_STOCK''),
                      (''message'', JStr ''Insufficient stock for the requested items''),
                      (''orderId'', JStr (order_id_of (order_count s + 1)))])
      else send_empty (raises rq) 404)"
  by (simp add: do_POST_fst post_body_fst section_result tracker_enter_fields)

lemma mock_do_POST_fields:
  "m_available_stock (snd (mock_do_POST rq s)) =
     (if is_order rq \<and> m_available_stock s > 0 then m_available_stock s - 1
      else m_available_stock s)"
  "m_order_count (snd (mock_do_POST rq s)) =
     (if is_order rq then m_order_count s + 1 else m_order_count s)"
  "m_successful_orders (snd (mock_do_POST rq s)) =
     (if is_order rq \<and> m_available_stock s > 0 then m_successful_orders s + 1
      else m_successful_orders s)"
  by (simp_all add: mock_do_POST_def is_order_def Let_def)

lemma mock_do_POST_id:
  "fst (fst (mock_do_POST rq s)) =
     (if is_order rq
      then Some (order_id_of (m_order_count s + 1), if m_available_stock s > 0 then 201 else 409)
      else None)"
  by (simp add: mock_do_POST_def is_order_def Let_def)

lemma mock_do_POST_reply:
  "snd (fst (mock_do_POST rq s)) =
     (if is_order rq then
        if m_available_stock s > 0 then
          send_json (raises rq) 201
            (JObj [(''orderId'', JStr (order_id_of (m_order_count s + 1))),
                   (''status'', JStr ''CONFIRMED''),
                   (''message'', JStr ''Order created successfully'')])
        else send_json (raises rq) 409
               (JObj [(''error'', JStr ''INSUFFICIENT_STOCK''),
                      (''message'', JStr ''Insufficient stock for the requested items'')])
      else send_empty (raises rq) 404)"
  by (simp add: mock_do_POST_def is_order_def Let_def)

lemma mock_run_snd_Cons:
  "snd (mock_run (rq # rqs) s) = snd (mock_run rqs (snd (mock_do_POST rq s)))"
  by (simp add: mock_run_def serve_snd_Cons del: serve.simps)

lemma mock_run_fst_Cons:
  "fst (mock_run (rq # rqs) s) =
     fst (mock_do_POST rq s) # fst (mock_run rqs (snd (mock_do_POST rq s)))"
  by (simp add: mock_run_def serve_fst_Cons del: serve.simps)

lemma mock_run_Nil: "mock_run [] s = ([], s)"
  by (simp add: mock_run_def)

lemma has_status_eq: "has_status c out = (\<exists>r. snd out = Inr r \<and> status_code r = c)"
  by (cases out; cases "snd out") auto

lemma count_status_Cons:
  "count_status c (out # outs) = (if has_status c out then 1 else 0) + count_status c outs"
  by (simp add: count_status_def)

lemma count_status_Nil: "count_status c [] = 0"
  by (simp add: count_status_def)

lemma do_POST_status:
  assumes "is_order rq" "no_fault rq"
  shows "has_status 201 (fst (enhanced_do_POST rq s)) = (available_stock s > 0)"
    and "has_status 409 (fst (enhanced_do_POST rq s)) = (\<not> available_stock s > 0)"
  using assms
  by (simp_all add: has_status_eq do_POST_reply send_json_no_fault) (simp_all add: no_fault_def)

lemma mock_do_POST_status:
  assumes "is_order rq" "no_fault rq"
  shows "has_status 201 (fst (mock_do_POST rq s)) = (m_available_stock s > 0)"
    and "has_status 409 (fst (mock_do_POST rq s)) = (\<not> m_available_stock s > 0)"
  using assms
  by (simp_all add: has_status_eq mock_do_POST_reply send_json_no_fault)

lemma run_counters:
  assumes "\<forall>rq\<in>set rqs. is_order rq" "0 \<le> available_stock s"
  shows "successful_orders (snd (enhanced_run rqs s))
           = successful_orders s + min (int (length rqs)) (available_stock s) \<and>
         failed_orders (snd (enhanced_run rqs s))
           = failed_orders s + (int (length rqs) - min (int (length rqs)) (available_stock s)) \<and>
         available_stock (snd (enhanced_run rqs s))
           = available_stock s - min (int (length rqs)) (available_stock s)"
  using assms
proof (induction rqs arbitrary: s)
  case Nil
  then show ?case by (simp add: run_Nil)
next
  case (Cons rq rqs)
  let ?s1 = "snd (enhanced_do_POST rq s)"
  have ord: "is_order rq" and rest: "\<forall>rq\<in>set rqs. is_order rq"
    using Cons.prems(1) by simp_all
  have nonneg: "0 \<le> available_stock ?s1"
    using Cons.prems(2) by (simp add: do_POST_fields)
  note ih = Cons.IH [OF rest nonneg]
  show ?case
  proof (cases "available_stock s > 0")
    case True
    with ih ord show ?thesis
      by (simp add: run_snd_Cons do_POST_fields min_def)
  next
    case False
    with Cons.prems(2) have "available_stock s = 0" by simp
    with ih ord show ?thesis
      by (simp add: run_snd_Cons do_POST_fields min_def)
  qed
qed

lemma run_replies:
  assumes "\<forall>rq\<in>set rqs. is_order rq \<and> no_fault rq" "0 \<le> available_stock s"
  shows "count_status 201 (fst (enhanced_run rqs s))
           = min (int (length rqs)) (available_stock s) \<and>
         count_status 409 (fst (enhanced_run rqs s))
           = int (length rqs) - min (int (length rqs)) (available_stock s)"
  using assms
proof (induction rqs arbitrary: s)
  case Nil
  then show ?case by (simp add: run_Nil count_status_Nil)
next
  case (Cons rq rqs)
  let ?s1 = "snd (enhanced_do_POST rq s)"
  have ord: "is_order rq" "no_fault rq" and rest: "\<forall>rq\<in>set rqs. is_order rq \<and> no_fault rq"
    using Cons.prems(1) by simp_all
  have nonneg: "0 \<le> available_stock ?s1"
    using Cons.prems(2) by (simp add: do_POST_fields)
  note ih = Cons.IH [OF rest nonneg]
  show ?case
  proof (cases "available_stock s > 0")
    case True
    with ih ord show ?thesis
      by (simp add: run_fst_Cons count_status_Cons do_POST_status do_POST_fields min_def)
  next
    case False
    with Cons.prems(2) have "available_stock s = 0" by simp
    with ih ord show ?thesis
      by (simp add: run_fst_Cons count_status_Cons do_POST_status do_POST_fields min_def)
  qed
qed

lemma run_stock_nonneg:
  "0 \<le> available_stock s \<Longrightarrow> 0 \<le> available_stock (snd (enhanced_run rqs s))"
  by (induction rqs arbitrary: s) (simp_all add: run_Nil run_snd_Cons do_POST_fields)

lemma mock_run_counters:
  assumes "\<forall>rq\<in>set rqs. is_order rq" "0 \<le> m_available_stock s"
  shows "m_successful_orders (snd (mock_run rqs s))
           = m_successful_orders s + min (int (length rqs)) (m_available_stock s) \<and>
         m_order_count (snd (mock_run rqs s)) = m_order_count s + int (length rqs) \<and>
         m_available_stock (snd (mock_run rqs s))
           = m_available_stock s - min (int (length rqs)) (m_available_stock s)"
  using assms
proof (induction rqs arbitrary: s)
  case Nil
  then show ?case by (simp add: mock_run_Nil)
next
  case (Cons rq rqs)
  let ?s1 = "snd (mock_do_POST rq s)"
  have ord: "is_order rq" and rest: "\<forall>rq\<in>set rqs. is_order rq"
    using Cons.prems(1) by simp_all
  have nonneg: "0 \<le> m_available_stock ?s1"
    using Cons.prems(2) by (simp add: mock_do_POST_fields)
  note ih = Cons.IH [OF rest nonneg]
  show ?case
  proof (cases "m_available_stock s > 0")
    case True
    with ih ord show ?thesis
      by (simp add: mock_run_snd_Cons mock_do_POST_fields min_def)
  next
    case False
    with Cons.prems(2) have "m_available_stock s = 0" by simp
    with ih ord show ?thesis
      by (simp add: mock_run_snd_Cons mock_do_POST_fields min_def)
  qed
qed

lemma mock_run_replies:
  assumes "\<forall>rq\<in>set rqs. is_order rq \<and> no_fault rq" "0 \<le> m_available_stock s"
  shows "count_status 201 (fst (mock_run rqs s))
           = min (int (length rqs)) (m_available_stock s) \<and>
         count_status 409 (fst (mock_run rqs s))
           = int (length rqs) - min (int (length rqs)) (m_available_stock s)"
  using assms
proof (induction rqs arbitrary: s)
  case Nil
  then show ?case by (simp add: mock_run_Nil count_status_Nil)
next
  case (Cons rq rqs)
  let ?s1 = "snd (mock_do_POST rq s)"
  have ord: "is_order rq" "no_fault rq" and rest: "\<forall>rq\<in>set rqs. is_order rq \<and> no_fault rq"
    using Cons.prems(1) by simp_all
  have nonneg: "0 \<le> m_available_stock ?s1"
    using Cons.prems(2) by (simp add: mock_do_POST_fields)
  note ih = Cons.IH [OF rest nonneg]
  show ?case
  proof (cases "m_available_stock s > 0")
    case True
    with ih ord show ?thesis
      by (simp add: mock_run_fst_Cons count_status_Cons mock_do_POST_status
          mock_do_POST_fields min_def)
  next
    case False
    with Cons.prems(2) have "m_available_stock s = 0" by simp
    with ih ord show ?thesis
      by (simp add: mock_run_fst_Cons count_status_Cons mock_do_POST_status
          mock_do_POST_fields min_def)
  qed
qed

lemma mock_run_stock_nonneg:
  "0 \<le> m_available_stock s \<Longrightarrow> 0 \<le> m_available_stock (snd (mock_run rqs s))"
  by (induction rqs arbitrary: s) (simp_all add: mock_run_Nil mock_run_snd_Cons mock_do_POST_fields)

lemma count_assigned_Cons:
  "count_assigned c (out # outs) =
     (if assigned_status out = Some c then 1 else 0) + count_assigned c outs"
  by (simp add: count_assigned_def)

lemma count_assigned_Nil: "count_assigned c [] = 0"
  by (simp add: count_assigned_def)

lemma do_POST_assigned_status:
  "assigned_status (fst (enhanced_do_POST rq s)) =
     (if is_order rq then Some (if available_stock s > 0 then 201 else 409) else None)"
  by (simp add: assigned_status_def do_POST_id)

lemma mock_do_POST_assigned_status:
  "assigned_status (fst (mock_do_POST rq s)) =
     (if is_order rq then Some (if m_available_stock s > 0 then 201 else 409) else None)"
  by (simp add: assigned_status_def mock_do_POST_id)

lemma run_assigned:
  assumes "\<forall>rq\<in>set rqs. is_order rq" "0 \<le> available_stock s"
  shows "count_assigned 201 (fst (enhanced_run rqs s))
           = min (int (length rqs)) (available_stock s) \<and>
         count_assigned 409 (fst (enhanced_run rqs s))
           = int (length rqs) - min (int (length rqs)) (available_stock s)"
  using assms
proof (induction rqs arbitrary: s)
  case Nil
  then show ?case by (simp add: run_Nil count_assigned_Nil)
next
  case (Cons rq rqs)
  let ?s1 = "snd (enhanced_do_POST rq s)"
  have ord: "is_order rq" and rest: "\<forall>rq\<in>set rqs. is_order rq"
    using Cons.prems(1) by simp_all
  have nonneg: "0 \<le> available_stock ?s1"
    using Cons.prems(2) by (simp add: do_POST_fields)
  note ih = Cons.IH [OF rest nonneg]
  show ?case
  proof (cases "available_stock s > 0")
    case True
    with ih ord show ?thesis
      by (simp add: run_fst_Cons count_assigned_Cons do_POST_assigned_status do_POST_fields min_def)
  next
    case False
    with Cons.prems(2) have "available_stock s = 0" by simp
    with ih ord show ?thesis
      by (simp add: run_fst_Cons count_assigned_Cons do_POST_assigned_status do_POST_fields min_def)
  qed
qed

lemma mock_run_assigned:
  assumes "\<forall>rq\<in>set rqs. is_order rq" "0 \<le> m_available_stock s"
  shows "count_assigned 201 (fst (mock_run rqs s))
           = min (int (length rqs)) (m_available_stock s) \<and>
         count_assigned 409 (fst (mock_run rqs s))
           = int (length rqs) - min (int (length rqs)) (m_available_stock s)"
  using assms
proof (induction rqs arbitrary: s)
  case Nil
  then show ?case by (simp add: mock_run_Nil count_assigned_Nil)
next
  case (Cons rq rqs)
  let ?s1 = "snd (mock_do_POST rq s)"
  have ord: "is_order rq" and rest: "\<forall>rq\<in>set rqs. is_order rq"
    using Cons.prems(1) by simp_all
  have nonneg: "0 \<le> m_available_stock ?s1"
    using Cons.prems(2) by (simp add: mock_do_POST_fields)
  note ih = Cons.IH [OF rest nonneg]
  show ?case
  proof (cases "m_available_stock s > 0")
    case True
    with ih ord show ?thesis
      by (simp add: mock_run_fst_Cons count_assigned_Cons mock_do_POST_assigned_status
          mock_do_POST_fields min_def)
  next
    case False
    with Cons.prems(2) have "m_available_stock s = 0" by simp
    with ih ord show ?thesis
      by (simp add: mock_run_fst_Cons count_assigned_Cons mock_do_POST_assigned_status
          mock_do_POST_fields min_def)
  qed
qed

lemma exec_Cons: "exec (x # tr) s = exec tr (exec_step x s)"
  by (simp add: exec_def)

lemma exec_counters:
  assumes "0 \<le> available_stock s"
  shows "successful_orders (exec tr s)
           = successful_orders s + min (int (orders_in tr)) (available_stock s) \<and>
         failed_orders (exec tr s)
           = failed_orders s + (int (orders_in tr) - min (int (orders_in tr)) (available_stock s)) \<and>
         available_stock (exec tr s)
           = available_stock s - min (int (orders_in tr)) (available_stock s)"
  using assms
proof (induction tr arbitrary: s)
  case Nil
  then show ?case by (simp add: exec_def)
next
  case (Cons x tr)
  show ?case
  proof (cases x)
    case Enter
    with Cons.IH [of "tracker_enter s"] Cons.prems show ?thesis
      by (simp add: exec_Cons tracker_enter_fields)
  next
    case (Order rq)
    have nonneg: "0 \<le> available_stock (snd (order_section rq s))"
      using Cons.prems by (simp add: order_section_fields)
    note ih = Cons.IH [OF nonneg]
    show ?thesis
    proof (cases "available_stock s > 0")
      case True
      with ih Order show ?thesis by (simp add: exec_Cons order_section_fields min_def)
    next
      case False
      with Cons.prems have "available_stock s = 0" by simp
      with ih Order show ?thesis by (simp add: exec_Cons order_section_fields min_def)
    qed
  next
    case (Sample v)
    with Cons.IH [of "s\<lparr>response_times := response_times s @ [v]\<rparr>"] Cons.prems
    show ?thesis by (simp add: exec_Cons)
  next
    case Exit
    with Cons.IH [of "tracker_exit s"] Cons.prems show ?thesis
      by (simp add: exec_Cons tracker_exit_fields)
  qed
qed

section \<open>No oversell\<close>

text \<open>
  Claim C1. Of \<open>N\<close> order attempts starting from an initial stock \<open>S \<ge> 0\<close>, exactly
  \<open>min N S\<close> are confirmed and \<open>N - min N S\<close> are rejected, and the stock is never
  negative after any call. For both servers and whatever I/O calls raise: the handlers
  assign status 201 to \<open>min N S\<close> requests and 409 to the other \<open>N - min N S\<close>, the
  counters of confirmed and rejected orders have these values (in \<^verbatim>\<open>mock_server.py\<close> the
  rejected count is \<^verbatim>\<open>order_count - successful_orders\<close>), and the stock is non-negative
  after every prefix of the run. When no I/O call raises, these are also the numbers of
  201 and 409 responses sent. The counters have the same values after every trace of
  atomic sections with \<open>N\<close> order sections, however the sections of different requests
  interleave.
\<close>

theorem no_oversell:
  assumes "0 \<le> S" and "\<forall>rq\<in>set rqs. is_order rq"
  shows
    "count_assigned 201 (fst (enhanced_run rqs (initial_state S))) = min (int (length rqs)) S \<and>
     count_assigned 409 (fst (enhanced_run rqs (initial_state S)))
       = int (length rqs) - min (int (length rqs)) S \<and>
     count_assigned 201 (fst (mock_run rqs (mock_initial_state S))) = min (int (length rqs)) S \<and>
     count_assigned 409 (fst (mock_run rqs (mock_initial_state S)))
       = int (length rqs) - min (int (length rqs)) S \<and>
     successful_orders (snd (enhanced_run rqs (initial_state S))) = min (int (length rqs)) S \<and>
     failed_orders (snd (enhanced_run rqs (initial_state S)))
       = int (length rqs) - min (int (length rqs)) S \<and>
     m_successful_orders (snd (mock_run rqs (mock_initial_state S))) = min (int (length rqs)) S \<and>
     mock_failed (snd (mock_run rqs (mock_initial_state S)))
       = int (length rqs) - min (int (length rqs)) S \<and>
     (\<forall>k. 0 \<le> available_stock (snd (enhanced_run (take k rqs) (initial_state S))) \<and>
          0 \<le> m_available_stock (snd (mock_run (take k rqs) (mock_initial_state S)))) \<and>
     ((\<forall>rq\<in>set rqs. no_fault rq) \<longrightarrow>
        count_status 201 (fst (enhanced_run rqs (initial_state S))) = min (int (length rqs)) S \<and>
        count_status 409 (fst (enhanced_run rqs (initial_state S)))
          = int (length rqs) - min (int (length rqs)) S \<and>
        count_status 201 (fst (mock_run rqs (mock_initial_state S))) = min (int (length rqs)) S \<and>
        count_status 409 (fst (mock_run rqs (mock_initial_state S)))
          = int (length rqs) - min (int (length rqs)) S) \<and>
     successful_orders (exec tr (initial_state S)) = min (int (orders_in tr)) S \<and>
     failed_orders (exec tr (initial_state S))
       = int (orders_in tr) - min (int (orders_in tr)) S \<and>
     0 \<le> available_stock (exec tr (initial_state S))"
proof -
  have e0: "0 \<le> available_stock (initial_state S)"
    and m0: "0 \<le> m_available_stock (mock_initial_state S)"
    using assms(1) by (simp_all add: initial_state_def mock_initial_state_def)
  have assigned:
    "count_assigned 201 (fst (enhanced_run rqs (initial_state S))) = min (int (length rqs)) S"
    "count_assigned 409 (fst (enhanced_run rqs (initial_state S)))
       = int (length rqs) - min (int (length rqs)) S"
    using run_assigned [OF assms(2) e0] by (simp_all add: initial_state_def)
  have massigned:
    "count_assigned 201 (fst (mock_run rqs (mock_initial_state S))) = min (int (length rqs)) S"
    "count_assigned 409 (fst (mock_run rqs (mock_initial_state S)))
       = int (length rqs) - min (int (length rqs)) S"
    using mock_run_assigned [OF assms(2) m0] by (simp_all add: mock_initial_state_def)
  have counters:
    "successful_orders (snd (enhanced_run rqs (initial_state S))) = min (int (length rqs)) S"
    "failed_orders (snd (enhanced_run rqs (initial_state S)))
       = int (length rqs) - min (int (length rqs)) S"
    using run_counters [OF assms(2) e0] by (simp_all add: initial_state_def)
  have mcounters:
    "m_successful_orders (snd (mock_run rqs (mock_initial_state S))) = min (int (length rqs)) S"
    "mock_failed (snd (mock_run rqs (mock_initial_state S)))
       = int (length rqs) - min (int (length rqs)) S"
    using mock_run_counters [OF assms(2) m0]
    by (simp_all add: mock_initial_state_def mock_failed_def)
  have stock: "\<forall>k. 0 \<le> available_stock (snd (enhanced_run (take k rqs) (initial_state S))) \<and>
      0 \<le> m_available_stock (snd (mock_run (take k rqs) (mock_initial_state S)))"
    using run_stock_nonneg [OF e0] mock_run_stock_nonneg [OF m0] by simp
  have replies:
    "count_status 201 (fst (enhanced_run rqs (initial_state S))) = min (int (length rqs)) S \<and>
     count_status 409 (fst (enhanced_run rqs (initial_state S)))
       = int (length rqs) - min (int (length rqs)) S \<and>
     count_status 201 (fst (mock_run rqs (mock_initial_state S))) = min (int (length rqs)) S \<and>
     count_status 409 (fst (mock_run rqs (mock_initial_state S)))
       = int (length rqs) - min (int (length rqs)) S"
    if quiet: "\<forall>rq\<in>set rqs. no_fault rq"
  proof -
    from assms(2) quiet have both: "\<forall>rq\<in>set rqs. is_order rq \<and> no_fault rq" by simp
    show ?thesis
      using run_replies [OF both e0] mock_run_replies [OF both m0]
      by (simp add: initial_state_def mock_initial_state_def)
  qed
  have trace:
    "successful_orders (exec tr (initial_state S)) = min (int (orders_in tr)) S"
    "failed_orders (exec tr (initial_state S))
       = int (orders_in tr) - min (int (orders_in tr)) S"
    "0 \<le> available_stock (exec tr (initial_state S))"
    using exec_counters [OF e0, of tr] assms(1) by (simp_all add: initial_state_def)
  from assigned massigned counters mcounters stock replies trace show ?thesis by blast
qed

theorem no_oversell_witness:
  "(0::int) \<le> 2 \<and> is_order (order_request never) \<and> is_order (order_request always) \<and>
   no_fault (order_request never) \<and>
   count_assigned 201 (fst (enhanced_run
     [order_request always, order_request always, order_request always] (initial_state 2))) = 2 \<and>
   count_assigned 409 (fst (mock_run
     [order_request always, order_request always, order_request always]
     (mock_initial_state 2))) = 1 \<and>
   successful_orders (snd (enhanced_run
     [order_request never, order_request never, order_request never] (initial_state 2))) = 2 \<and>
   failed_orders (snd (enhanced_run
     [order_request never, order_request never, order_request never] (initial_state 2))) = 1 \<and>
   count_status 201 (fst (enhanced_run
     [order_request never, order_request never, order_request never] (initial_state 2))) = 2 \<and>
   count_status 409 (fst (enhanced_run
     [order_request never, order_request never, order_request never] (initial_state 2))) = 1 \<and>
   m_successful_orders (snd (mock_run
     [order_request never, order_request never, order_request never] (mock_initial_state 2))) = 2 \<and>
   count_status 409 (fst (mock_run
     [order_request never, order_request never, order_request never] (mock_initial_state 2))) = 1 \<and>
   successful_orders (exec
     [Enter, Enter, Order (order_request never), Enter, Order (order_request never),
      Order (order_request never), Exit] (initial_state 2)) = 2"
proof -
  have ord: "is_order (order_request f)" for f
    by (simp add: is_order_def order_request_def)
  have quiet: "no_fault (order_request never)"
    by (simp add: no_fault_def order_request_def never_def)
  have h1: "(0::int) \<le> 2" by simp
  have h2: "\<forall>rq\<in>set [order_request never, order_request never, order_request never]. is_order rq"
    using ord by simp
  have h2': "\<forall>rq\<in>set [order_request always, order_request always, order_request always].
      is_order rq"
    using ord by simp
  have h3: "\<forall>rq\<in>set [order_request never, order_request never, order_request never]. no_fault rq"
    using quiet by simp
  note quiet_run = no_oversell [OF h1 h2, of "[Enter, Enter, Order (order_request never), Enter,
      Order (order_request never), Order (order_request never), Exit]"]
  note faulty_run = no_oversell [OF h1 h2', of "[]"]
  from faulty_run have faulty:
    "count_assigned 201 (fst (enhanced_run
       [order_request always, order_request always, order_request always] (initial_state 2))) = 2"
    "count_assigned 409 (fst (mock_run
       [order_request always, order_request always, order_request always]
       (mock_initial_state 2))) = 1"
    by simp_all
  from quiet_run h3 faulty ord quiet show ?thesis by simp
qed

section \<open>Responses to an order\<close>






lemma order_id_1: "order_id_of 1 = ''ORDER-00001''"
  by (simp add: order_id_of_def format_05d_def zfill_def digits.simps digit_char_def
      eval_nat_numeral)





section \<open>Response-time samples\<close>

lemma aborted_eq: "aborted out = (snd out = Inl (IOError Stdout_print))"
  by (cases out) simp

lemma send_json_not_print: "send_json f c b \<noteq> Inl (IOError Stdout_print)"
  using send_json_cases [of f c b] by auto

lemma send_empty_not_print: "send_empty f c \<noteq> Inl (IOError Stdout_print)"
  using send_empty_cases [of f c] by auto

lemma do_POST_aborted:
  "aborted (fst (enhanced_do_POST rq s)) =
     (is_order rq \<and> available_stock s > 0 \<and> (successful_orders s + 1) mod 100 = 0 \<and>
      raises rq Stdout_print)"
  by (simp add: aborted_eq do_POST_reply send_json_not_print send_empty_not_print)

lemma do_POST_samples:
  "response_times (snd (enhanced_do_POST rq s)) =
     (if is_order rq \<and> \<not> aborted (fst (enhanced_do_POST rq s))
      then response_times s @ [response_time rq] else response_times s)"
  by (simp add: do_POST_aborted)
     (simp add: do_POST_snd post_body_snd tracker_exit_fields tracker_enter_fields
       order_section_fields section_result)




lemma aborted_order_leaves_no_sample:
  assumes "is_order rq" "raises rq Stdout_print" "available_stock s > 0"
    "(successful_orders s + 1) mod 100 = 0"
  shows "snd (fst (enhanced_do_POST rq s)) = Inl (IOError Stdout_print) \<and>
         response_times (snd (enhanced_do_POST rq s)) = response_times s \<and>
         order_count (snd (enhanced_do_POST rq s)) = order_count s + 1 \<and>
         successful_orders (snd (enhanced_do_POST rq s)) = successful_orders s + 1"
  using assms by (simp add: do_POST_samples do_POST_aborted do_POST_fields do_POST_reply)



section \<open>The two servers agree\<close>

lemma reply_code_eq: "reply_code out = map_sum id status_code (snd out)"
  by (cases out; cases "snd out") auto

lemma agree_step:
  assumes "agree m e"
  shows "agree (snd (mock_do_POST rq m)) (snd (enhanced_do_POST rq e))"
    and "fst (fst (mock_do_POST rq m)) = fst (fst (enhanced_do_POST rq e))"
    and "\<not> raises rq Stdout_print \<Longrightarrow>
           reply_code (fst (mock_do_POST rq m)) = reply_code (fst (enhanced_do_POST rq e))"
proof -
  from assms have eqs: "m_available_stock m = available_stock e" "m_order_count m = order_count e"
    "m_successful_orders m = successful_orders e"
    "m_order_count m - m_successful_orders m = failed_orders e"
    by (simp_all add: agree_def mock_failed_def)
  show "agree (snd (mock_do_POST rq m)) (snd (enhanced_do_POST rq e))"
    using eqs by (simp add: agree_def mock_failed_def mock_do_POST_fields do_POST_fields)
  show "fst (fst (mock_do_POST rq m)) = fst (fst (enhanced_do_POST rq e))"
    using eqs by (simp add: mock_do_POST_id do_POST_id)
  have code: "reply_code out = map_sum id status_code (snd out)" for out
    by (cases out; cases "snd out") auto
  have sj: "map_sum id status_code (send_json f c b) = map_sum id status_code (send_json f c b')"
    for f c b b'
    by (simp add: send_json_def split: option.splits)
  show "reply_code (fst (mock_do_POST rq m)) = reply_code (fst (enhanced_do_POST rq e))"
    if "\<not> raises rq Stdout_print"
    using that eqs by (auto simp: code mock_do_POST_reply do_POST_reply intro: sj)
qed

lemma map_assigned:
  "map assigned_id outs = map (map_option fst) (map fst outs)"
  "map assigned_status outs = map (map_option snd) (map fst outs)"
  by (simp_all add: assigned_id_def assigned_status_def)

lemma runs_agree:
  assumes "agree m e"
  shows "map fst (fst (mock_run rqs m)) = map fst (fst (enhanced_run rqs e)) \<and>
      agree (snd (mock_run rqs m)) (snd (enhanced_run rqs e)) \<and>
      ((\<forall>rq\<in>set rqs. \<not> raises rq Stdout_print) \<longrightarrow>
         map reply_code (fst (mock_run rqs m)) = map reply_code (fst (enhanced_run rqs e)))"
  using assms
proof (induction rqs arbitrary: m e)
  case Nil
  then show ?case by (simp add: run_Nil mock_run_Nil)
next
  case (Cons rq rqs)
  note step = agree_step [OF Cons.prems, of rq]
  note ih = Cons.IH [OF step(1)]
  from ih step(2) step(3) show ?case
    by (simp add: run_fst_Cons run_snd_Cons mock_run_fst_Cons mock_run_snd_Cons)
qed

lemma initially_agree: "agree (mock_initial_state S) (initial_state S)"
  by (simp add: agree_def mock_failed_def mock_initial_state_def initial_state_def)

text \<open>
  Claim C10. For every sequence of POST requests and every initial stock,
  \<^verbatim>\<open>mock_server.py\<close> and \<^verbatim>\<open>enhanced_mock_server.py\<close> assign every request the same
  order identifier and the same status code, whatever I/O calls raise; their stock and
  order counters stay equal, and the failed count derived in \<^verbatim>\<open>mock_server.py\<close>
  (\<^verbatim>\<open>order_count - successful_orders\<close>) equals \<^verbatim>\<open>failed_orders\<close> after every request.
  The client of either server receives the same status code (or meets the same socket
  exception) whenever the progress line of the enhanced server does not raise.
\<close>

theorem servers_agree:
  "map assigned_id (fst (mock_run rqs (mock_initial_state S)))
     = map assigned_id (fst (enhanced_run rqs (initial_state S))) \<and>
   map assigned_status (fst (mock_run rqs (mock_initial_state S)))
     = map assigned_status (fst (enhanced_run rqs (initial_state S))) \<and>
   (\<forall>k. agree (snd (mock_run (take k rqs) (mock_initial_state S)))
          (snd (enhanced_run (take k rqs) (initial_state S))) \<and>
        mock_failed (snd (mock_run (take k rqs) (mock_initial_state S)))
          = failed_orders (snd (enhanced_run (take k rqs) (initial_state S)))) \<and>
   mock_failed (snd (mock_run rqs (mock_initial_state S)))
     = failed_orders (snd (enhanced_run rqs (initial_state S))) \<and>
   ((\<forall>rq\<in>set rqs. \<not> raises rq Stdout_print) \<longrightarrow>
      map reply_code (fst (mock_run rqs (mock_initial_state S)))
        = map reply_code (fst (enhanced_run rqs (initial_state S))))"
proof -
  note whole = runs_agree [OF initially_agree, of rqs S]
  have prefixes: "agree (snd (mock_run (take k rqs) (mock_initial_state S)))
      (snd (enhanced_run (take k rqs) (initial_state S)))" for k
    using runs_agree [OF initially_agree, of "take k rqs" S] by simp
  from whole have "map assigned_id (fst (mock_run rqs (mock_initial_state S)))
      = map assigned_id (fst (enhanced_run rqs (initial_state S)))"
    "map assigned_status (fst (mock_run rqs (mock_initial_state S)))
      = map assigned_status (fst (enhanced_run rqs (initial_state S)))"
    by (simp_all only: map_assigned)
  moreover from prefixes
  have "\<forall>k. agree (snd (mock_run (take k rqs) (mock_initial_state S)))
          (snd (enhanced_run (take k rqs) (initial_state S))) \<and>
        mock_failed (snd (mock_run (take k rqs) (mock_initial_state S)))
          = failed_orders (snd (enhanced_run (take k rqs) (initial_state S)))"
    by (simp add: agree_def)
  moreover from whole have "mock_failed (snd (mock_run rqs (mock_initial_state S)))
      = failed_orders (snd (enhanced_run rqs (initial_state S)))"
    by (simp add: agree_def)
  moreover from whole have "(\<forall>rq\<in>set rqs. \<not> raises rq Stdout_print) \<longrightarrow>
      map reply_code (fst (mock_run rqs (mock_initial_state S)))
        = map reply_code (fst (enhanced_run rqs (initial_state S)))"
    by simp
  ultimately show ?thesis by blast
qed

theorem servers_agree_witness:
  "\<not> raises (order_request never) Stdout_print \<and>
   \<not> raises (other_request never) Stdout_print \<and>
   map assigned_id (fst (enhanced_run
     [order_request never, order_request never, other_request never] (initial_state 1)))
     = [Some ''ORDER-00001'', Some ''ORDER-00002'', None] \<and>
   map assigned_status (fst (enhanced_run
     [order_request never, order_request never, other_request never] (initial_state 1)))
     = [Some 201, Some 409, None] \<and>
   map reply_code (fst (enhanced_run
     [order_request never, order_request never, other_request never] (initial_state 1)))
     = [Inr 201, Inr 409, Inr 404] \<and>
   failed_orders (snd (enhanced_run
     [order_request never, order_request never, other_request never] (initial_state 1))) = 1"
proof -
  have ord: "is_order (order_request never)" "\<not> is_order (other_request never)"
    by (simp_all add: is_order_def order_request_def other_request_def)
  have quiet: "\<not> raises (order_request never) Stdout_print"
    "\<not> raises (other_request never) Stdout_print"
    by (simp_all add: order_request_def other_request_def never_def)
  have id2: "order_id_of 2 = ''ORDER-00002''"
    by (simp add: order_id_of_def format_05d_def zfill_def digits.simps digit_char_def
        eval_nat_numeral)
  have sends: "send_json (raises (order_request never)) c b =
      Inr \<lparr>status_code = c, content_type = Some ''application/json'', body = Some b\<rparr>"
    "send_empty (raises (other_request never)) c =
      Inr \<lparr>status_code = c, content_type = None, body = None\<rparr>" for c b
    by (simp_all add: send_json_def send_empty_def order_request_def other_request_def never_def)
  have mock_ids: "map assigned_id (fst (mock_run
      [order_request never, order_request never, other_request never] (mock_initial_state 1)))
      = [Some ''ORDER-00001'', Some ''ORDER-00002'', None]"
    by (simp add: assigned_id_def mock_run_fst_Cons mock_run_Nil mock_do_POST_id
        mock_do_POST_fields ord mock_initial_state_def order_id_1 id2)
  have mock_statuses: "map assigned_status (fst (mock_run
      [order_request never, order_request never, other_request never] (mock_initial_state 1)))
      = [Some 201, Some 409, None]"
    by (simp add: assigned_status_def mock_run_fst_Cons mock_run_Nil mock_do_POST_id
        mock_do_POST_fields ord mock_initial_state_def)
  have mock_codes: "map reply_code (fst (mock_run
      [order_request never, order_request never, other_request never] (mock_initial_state 1)))
      = [Inr 201, Inr 409, Inr 404]"
    by (simp add: mock_run_fst_Cons mock_run_Nil reply_code_eq mock_do_POST_reply
        mock_do_POST_fields ord mock_initial_state_def sends)
  have mock_fail: "mock_failed (snd (mock_run
      [order_request never, order_request never, other_request never] (mock_initial_state 1))) = 1"
    by (simp add: mock_run_snd_Cons mock_run_Nil mock_failed_def mock_do_POST_fields ord
        mock_initial_state_def)
  have all_quiet: "\<forall>rq\<in>set [order_request never, order_request never, other_request never].
      \<not> raises rq Stdout_print"
    using quiet by simp
  note inst = servers_agree
    [of "[order_request never, order_request never, other_request never]" 1]
  from inst mock_ids have ids: "map assigned_id (fst (enhanced_run
      [order_request never, order_request never, other_request never] (initial_state 1)))
      = [Some ''ORDER-00001'', Some ''ORDER-00002'', None]"
    by (simp only:)
  from inst mock_statuses have statuses: "map assigned_status (fst (enhanced_run
      [order_request never, order_request never, other_request never] (initial_state 1)))
      = [Some 201, Some 409, None]"
    by (simp only:)
  from inst all_quiet mock_codes have codes: "map reply_code (fst (enhanced_run
      [order_request never, order_request never, other_request never] (initial_state 1)))
      = [Inr 201, Inr 409, Inr 404]"
    by (simp only: simp_thms)
  from inst mock_fail have fails: "failed_orders (snd (enhanced_run
      [order_request never, order_request never, other_request never] (initial_state 1))) = 1"
    by (simp only:)
  from quiet ids statuses codes fails show ?thesis by simp
qed

section \<open>Order identifiers\<close>









lemma length_digits_pos: "0 < length (digits n)"
  by (subst digits.simps) simp

















section \<open>The metrics snapshot\<close>

lemma bind_Inr: "bind (Inr x) f = f x"
  by (simp add: bind_def)

lemma guarded_results:
  "(if response_times s \<noteq> []
    then bind (truediv_fi fl (float_sum fl (response_times s))
                 (int (length (response_times s)))) (\<lambda>x. Inr (JFloat x))
    else Inr (JInt 0)) =
   Inr (if response_times s \<noteq> []
        then JFloat (float_div_int fl (float_sum fl (response_times s))
               (int (length (response_times s))))
        else JInt 0)"
  "(if order_count s > 0
    then bind (truediv_ii fl (successful_orders s) (order_count s))
           (\<lambda>x. Inr (JFloat (float_mul_int fl x 100)))
    else Inr (JInt 0)) =
   Inr (if order_count s > 0
        then JFloat (float_mul_int fl (int_div_int fl (successful_orders s) (order_count s)) 100)
        else JInt 0)"
  "(if t > 0 then bind (truediv_if fl (order_count s) t) (\<lambda>x. Inr (JFloat x))
    else Inr (JInt 0)) =
   Inr (if t > 0 then JFloat (int_div_float fl (order_count s) t) else JInt 0)"
  "(if response_times s \<noteq> []
    then bind (py_min (response_times s)) (\<lambda>x. Inr (JFloat x))
    else Inr (JInt 0)) =
   Inr (if response_times s \<noteq> []
        then JFloat (fold min (tl (response_times s)) (hd (response_times s))) else JInt 0)"
  "(if response_times s \<noteq> []
    then bind (py_max (response_times s)) (\<lambda>x. Inr (JFloat x))
    else Inr (JInt 0)) =
   Inr (if response_times s \<noteq> []
        then JFloat (fold max (tl (response_times s)) (hd (response_times s))) else JInt 0)"
  by (cases "response_times s"; simp add: bind_def truediv_fi_def truediv_ii_def truediv_if_def)+

lemma metrics_snapshot_total:
  "metrics_snapshot fl initial_stock t s =
     Inr (JObj
       [(''summary'', JObj
           [(''initialStock'', JInt initial_stock),
            (''availableStock'', JInt (available_stock s)),
            (''totalOrders'', JInt (order_count s)),
            (''successfulOrders'', JInt (successful_orders s)),
            (''failedOrders'', JInt (failed_orders s)),
            (''successRate'',
               if order_count s > 0
               then JFloat (float_mul_int fl
                      (int_div_int fl (successful_orders s) (order_count s)) 100)
               else JInt 0),
            (''totalTime'', JFloat t),
            (''avgTPS'', if t > 0 then JFloat (int_div_float fl (order_count s) t) else JInt 0),
            (''maxConcurrentRequests'', JInt (max_concurrent s))]),
        (''responseTime'', JObj
           [(''avg'',
               if response_times s \<noteq> []
               then JFloat (float_div_int fl (float_sum fl (response_times s))
                      (int (length (response_times s))))
               else JInt 0),
            (''min'',
               if response_times s \<noteq> []
               then JFloat (fold min (tl (response_times s)) (hd (response_times s)))
               else JInt 0),
            (''max'',
               if response_times s \<noteq> []
               then JFloat (fold max (tl (response_times s)) (hd (response_times s)))
               else JInt 0),
            (''count'', JInt (int (length (response_times s))))])])"
  unfolding metrics_snapshot_def guarded_results bind_Inr ..


lemma do_GET_metrics:
  "get_path rq = ''/metrics'' \<Longrightarrow>
     enhanced_do_GET fl initial_stock rq s =
       send_json (get_raises rq) 200 (projr (metrics_snapshot fl initial_stock (total_time rq) s))"
  by (simp add: enhanced_do_GET_def metrics_snapshot_total bind_Inr)

lemma get_field_send_json:
  "\<not> isl (send_json f c j) \<Longrightarrow> get_field ks (send_json f c j) = path_field ks j"
  using send_json_cases [of f c j] by auto

lemma send_json_get_no_fault: "no_get_fault rq \<Longrightarrow> \<not> isl (send_json (get_raises rq) c j)"
  by (simp add: send_json_def no_get_fault_def)

lemma snapshot_success_rate:
  "path_field [''summary'', ''successRate'']
     (projr (metrics_snapshot fl initial_stock t s)) =
   Some (if order_count s > 0
         then JFloat (float_mul_int fl (int_div_int fl (successful_orders s) (order_count s)) 100)
         else JInt 0)"
  by (simp add: metrics_snapshot_total)

lemma snapshot_response_time:
  "response_times s = [] \<Longrightarrow>
   path_field [''responseTime''] (projr (metrics_snapshot fl initial_stock t s)) =
   Some (JObj [(''avg'', JInt 0), (''min'', JInt 0), (''max'', JInt 0), (''count'', JInt 0)])"
  by (simp add: metrics_snapshot_total)

text \<open>
  Claim C7. The \<^verbatim>\<open>successRate\<close> of the metrics snapshot is
  \<^verbatim>\<open>successful_orders / order_count * 100\<close>, as Python's float division and
  multiplication compute it, whenever \<^verbatim>\<open>order_count > 0\<close>, and the integer 0 whenever
  \<^verbatim>\<open>order_count = 0\<close>: for every state and every \<^verbatim>\<open>GET /metrics\<close> that sends its response
  (which it does when no socket call raises).
\<close>

theorem success_rate:
  assumes "get_path rq = ''/metrics''"
  shows
    "(no_get_fault rq \<longrightarrow> \<not> isl (enhanced_do_GET fl initial_stock rq s)) \<and>
     (\<not> isl (enhanced_do_GET fl initial_stock rq s) \<longrightarrow>
        (0 < order_count s \<longrightarrow>
           get_field [''summary'', ''successRate''] (enhanced_do_GET fl initial_stock rq s)
             = Some (JFloat (float_mul_int fl
                 (int_div_int fl (successful_orders s) (order_count s)) 100))) \<and>
        (order_count s = 0 \<longrightarrow>
           get_field [''summary'', ''successRate''] (enhanced_do_GET fl initial_stock rq s)
             = Some (JInt 0)))"
  by (simp add: do_GET_metrics [OF assms] send_json_get_no_fault get_field_send_json
      snapshot_success_rate del: path_field.simps)

theorem success_rate_witness:
  "get_path (metrics_request never) = ''/metrics'' \<and>
   \<not> isl (enhanced_do_GET exact_ops 3 (metrics_request never) (initial_state 3)) \<and>
   get_field [''summary'', ''successRate'']
     (enhanced_do_GET exact_ops 3 (metrics_request never) (initial_state 3)) = Some (JInt 0) \<and>
   get_field [''summary'', ''successRate'']
     (enhanced_do_GET exact_ops 3 (metrics_request never)
        (snd (enhanced_run [order_request never, order_request never, order_request never,
           order_request never] (initial_state 3)))) = Some (JFloat 75)"
proof -
  let ?s = "snd (enhanced_run [order_request never, order_request never, order_request never,
           order_request never] (initial_state 3))"
  have p: "get_path (metrics_request never) = ''/metrics''"
    by (simp add: metrics_request_def)
  have quiet: "no_get_fault (metrics_request never)"
    by (simp add: no_get_fault_def metrics_request_def never_def)
  have ord: "is_order (order_request never)"
    by (simp add: is_order_def order_request_def)
  have counts: "order_count ?s = 4" "successful_orders ?s = 3"
    by (simp_all add: run_snd_Cons run_Nil do_POST_fields ord initial_state_def)
  have zero: "order_count (initial_state 3) = 0"
    by (simp add: initial_state_def)
  note a = success_rate [OF p, where s = "initial_state 3" and fl = exact_ops
      and initial_stock = 3]
  note b = success_rate [OF p, where s = ?s and fl = exact_ops and initial_stock = 3]
  from a quiet zero have a': "\<not> isl (enhanced_do_GET exact_ops 3 (metrics_request never) (initial_state 3))"
    "get_field [''summary'', ''successRate'']
       (enhanced_do_GET exact_ops 3 (metrics_request never) (initial_state 3)) = Some (JInt 0)"
    by simp_all
  from b quiet counts have b': "get_field [''summary'', ''successRate'']
       (enhanced_do_GET exact_ops 3 (metrics_request never) ?s) = Some (JFloat 75)"
    by (simp add: exact_ops_def)
  from p a' b' show ?thesis by simp
qed

text \<open>
  Claim C8. With no response-time sample recorded, building the snapshot raises nothing
  (no division by zero, no \<^verbatim>\<open>min\<close> or \<^verbatim>\<open>max\<close> of an empty sequence), and the
  \<^verbatim>\<open>responseTime\<close> block of \<^verbatim>\<open>GET /metrics\<close> reports \<^verbatim>\<open>avg\<close>, \<^verbatim>\<open>min\<close>,
  \<^verbatim>\<open>max\<close> and \<^verbatim>\<open>count\<close> all equal to 0.
\<close>

theorem empty_samples:
  assumes "get_path rq = ''/metrics''" and "response_times s = []"
  shows
    "(\<exists>m. metrics_snapshot fl initial_stock (total_time rq) s = Inr m) \<and>
     (no_get_fault rq \<longrightarrow> \<not> isl (enhanced_do_GET fl initial_stock rq s)) \<and>
     (\<not> isl (enhanced_do_GET fl initial_stock rq s) \<longrightarrow>
        get_field [''responseTime''] (enhanced_do_GET fl initial_stock rq s)
          = Some (JObj [(''avg'', JInt 0), (''min'', JInt 0), (''max'', JInt 0),
                        (''count'', JInt 0)]))"
proof (intro conjI impI)
  show "\<exists>m. metrics_snapshot fl initial_stock (total_time rq) s = Inr m"
    by (simp add: metrics_snapshot_total)
next
  assume "no_get_fault rq"
  then show "\<not> isl (enhanced_do_GET fl initial_stock rq s)"
    by (simp add: do_GET_metrics [OF assms(1)] send_json_get_no_fault)
next
  assume "\<not> isl (enhanced_do_GET fl initial_stock rq s)"
  then show "get_field [''responseTime''] (enhanced_do_GET fl initial_stock rq s)
      = Some (JObj [(''avg'', JInt 0), (''min'', JInt 0), (''max'', JInt 0), (''count'', JInt 0)])"
    by (simp add: do_GET_metrics [OF assms(1)] get_field_send_json
        snapshot_response_time [OF assms(2)] del: path_field.simps)
qed

theorem empty_samples_witness:
  "get_path (metrics_request never) = ''/metrics'' \<and> response_times (initial_state 3) = [] \<and>
   \<not> isl (enhanced_do_GET exact_ops 3 (metrics_request never) (initial_state 3)) \<and>
   get_field [''responseTime'']
     (enhanced_do_GET exact_ops 3 (metrics_request never) (initial_state 3))
     = Some (JObj [(''avg'', JInt 0), (''min'', JInt 0), (''max'', JInt 0), (''count'', JInt 0)])"
proof -
  have p: "get_path (metrics_request never) = ''/metrics''"
    by (simp add: metrics_request_def)
  have e: "response_times (initial_state 3) = []"
    by (simp add: initial_state_def)
  have quiet: "no_get_fault (metrics_request never)"
    by (simp add: no_get_fault_def metrics_request_def never_def)
  from empty_samples [OF p e, where fl = exact_ops and initial_stock = 3] quiet p e
  show ?thesis by simp
qed

end
